theory Spec2Isabelle
  imports Main
begin

section \<open>Normalising an upstream HTTP response (proxy/http\_response.go)\<close>

text \<open>
  The file \<^verbatim>\<open>proxy/http_response.go\<close> holds two parsers that turn a
  \<^verbatim>\<open>*http.Response\<close> into the gateway's \<^verbatim>\<open>*Response\<close>:
  the parser built by \<^verbatim>\<open>DefaultHTTPResponseParserFactory\<close> (decode path) and
  \<^verbatim>\<open>NoOpHTTPResponseParser\<close> (passthrough). Both are embedded below as HOL
  functions. What the code does beyond returning a value is made explicit: the two
  deferred \<^verbatim>\<open>Close\<close> calls are a stack of deferred calls that is run when the
  function is left and that writes a trace of release events, and a nil pointer
  dereference is the outcome \<open>Panic\<close>.
\<close>

subsection \<open>Values of the Go runtime and of the standard library\<close>

text \<open>
  A Go \<^verbatim>\<open>error\<close> value is opaque to the parser: it is only passed on.
\<close>

datatype go_error = GoError string

text \<open>
  What reading an \<^verbatim>\<open>io.Reader\<close> to its end yields: the bytes delivered, and the
  error that ended the stream (\<open>None\<close> for a clean \<^verbatim>\<open>io.EOF\<close>).
\<close>

type_synonym stream = "string \<times> go_error option"

text \<open>
  \<^verbatim>\<open>http.Header\<close> is \<^verbatim>\<open>map[string][]string\<close>.
\<close>

type_synonym header = "string \<rightharpoonup> string list"

text \<open>
  \<^verbatim>\<open>textproto.CanonicalMIMEHeaderKey\<close> of the standard library. A key that holds a
  byte which is not a token character of RFC 7230 (a space included) is returned as it
  is; otherwise the first letter and every letter after a hyphen are made upper case
  and every other letter lower case.
\<close>

definition validHeaderFieldByte :: "char \<Rightarrow> bool" where
  "validHeaderFieldByte c =
     (let n = (of_char c :: nat) in
        (48 \<le> n \<and> n \<le> 57) \<or> (97 \<le> n \<and> n \<le> 122) \<or> (65 \<le> n \<and> n \<le> 90)
        \<or> n = 33 \<or> n = 35 \<or> n = 36 \<or> n = 37 \<or> n = 38 \<or> n = 39 \<or> n = 42 \<or> n = 43
        \<or> n = 45 \<or> n = 46 \<or> n = 94 \<or> n = 95 \<or> n = 96 \<or> n = 124 \<or> n = 126)"

definition isLowerAZ :: "char \<Rightarrow> bool" where
  "isLowerAZ c = (97 \<le> (of_char c :: nat) \<and> (of_char c :: nat) \<le> 122)"

definition isUpperAZ :: "char \<Rightarrow> bool" where
  "isUpperAZ c = (65 \<le> (of_char c :: nat) \<and> (of_char c :: nat) \<le> 90)"

definition toLower :: nat where
  "toLower = 32"

definition canonicalByte :: "bool \<Rightarrow> char \<Rightarrow> char" where
  "canonicalByte upper c =
     (if upper \<and> isLowerAZ c then char_of ((of_char c :: nat) - toLower)
      else if \<not> upper \<and> isUpperAZ c then char_of ((of_char c :: nat) + toLower)
      else c)"

fun canonicalMIMEHeaderKey :: "bool \<Rightarrow> string \<Rightarrow> string" where
  "canonicalMIMEHeaderKey upper [] = []"
| "canonicalMIMEHeaderKey upper (c # cs) =
     canonicalByte upper c # canonicalMIMEHeaderKey (canonicalByte upper c = CHR ''-'') cs"

definition CanonicalMIMEHeaderKey :: "string \<Rightarrow> string" where
  "CanonicalMIMEHeaderKey s =
     (if list_all validHeaderFieldByte s then canonicalMIMEHeaderKey True s else s)"

text \<open>
  \<^verbatim>\<open>Header.Get\<close> returns the first value stored under the canonical form of the
  key, and the empty string when there is none; \<^verbatim>\<open>Header.Set\<close> replaces whatever is
  stored under the canonical form of the key by the single value.
\<close>

definition Header_Get :: "header \<Rightarrow> string \<Rightarrow> string" where
  "Header_Get h key =
     (case h (CanonicalMIMEHeaderKey key) of
        None \<Rightarrow> []
      | Some [] \<Rightarrow> []
      | Some (v # vs) \<Rightarrow> v)"

definition Header_Set :: "header \<Rightarrow> string \<Rightarrow> string \<Rightarrow> header" where
  "Header_Set h key v = h(CanonicalMIMEHeaderKey key \<mapsto> [v])"

text \<open>
  \<^verbatim>\<open>context.Context\<close>, as far as the parsers are concerned: whether it has been
  cancelled by the time the returned stream is read.
\<close>

datatype go_context = Background | Canceled

text \<open>
  \<^verbatim>\<open>http.Response\<close>: the status code, the header and the body, a single-use
  \<^verbatim>\<open>io.ReadCloser\<close> given by what reading it to the end yields.
\<close>

record http_Response =
  resp_StatusCode :: int
  resp_Header :: header
  resp_Body :: stream

text \<open>
  \<^verbatim>\<open>gzip.NewReader\<close> reads the ten fixed bytes of the gzip header from the
  underlying reader and fails when they cannot be read or when the first three are not
  \<^verbatim>\<open>0x1f 0x8b 0x08\<close>; on failure it returns a nil \<^verbatim>\<open>*gzip.Reader\<close>. The rest
  (the optional header fields and the deflate stream) is the parameter \<open>inflate\<close>,
  which gives what reading the decompressing reader to its end yields, or \<open>None\<close>
  when the remainder of the header is rejected.

  The variable \<^verbatim>\<open>reader\<close> of the parser is an \<^verbatim>\<open>io.ReadCloser\<close> interface value
  holding either the raw body, a gzip reader, or a nil \<^verbatim>\<open>*gzip.Reader\<close>.
\<close>

datatype reader = BodyReader stream | GzipReader stream | NilGzipReader

definition gzipHeaderOK :: "string \<Rightarrow> bool" where
  "gzipHeaderOK bs =
     (10 \<le> length bs \<and> (of_char (bs ! 0) :: nat) = 31 \<and> (of_char (bs ! 1) :: nat) = 139
      \<and> (of_char (bs ! 2) :: nat) = 8)"

definition gzip_NewReader :: "(stream \<Rightarrow> stream option) \<Rightarrow> stream \<Rightarrow> reader" where
  "gzip_NewReader inflate body =
     (if gzipHeaderOK (fst body)
      then (case inflate body of None \<Rightarrow> NilGzipReader | Some s \<Rightarrow> GzipReader s)
      else NilGzipReader)"

text \<open>
  Reading from the interface value: a method of \<^verbatim>\<open>*gzip.Reader\<close> called on the nil
  pointer dereferences it, which panics (\<open>None\<close>).
\<close>

fun reader_Read :: "reader \<Rightarrow> stream option" where
  "reader_Read (BodyReader s) = Some s"
| "reader_Read (GzipReader s) = Some s"
| "reader_Read NilGzipReader = None"

text \<open>
  Release events, in the order in which they happen. \<^verbatim>\<open>(*gzip.Reader).Close\<close> does
  not close the underlying reader; on the nil pointer it panics (\<open>None\<close>).
\<close>

datatype event = CloseBody | CloseGzip

fun reader_Close :: "reader \<Rightarrow> event option" where
  "reader_Close (BodyReader s) = Some CloseBody"
| "reader_Close (GzipReader s) = Some CloseGzip"
| "reader_Close NilGzipReader = None"

subsection \<open>The gateway's response and the parser configuration\<close>

text \<open>
  Modelled from the spec: the declarations of \<^verbatim>\<open>Response\<close>, \<^verbatim>\<open>Metadata\<close>,
  \<^verbatim>\<open>EntityFormatter\<close>, \<^verbatim>\<open>EntityFormatterFunc\<close>, \<^verbatim>\<open>encoding.Decoder\<close>,
  \<^verbatim>\<open>config.Backend\<close> and \<^verbatim>\<open>NewReadCloserWrapper\<close> are in files of the repository
  other than \<^verbatim>\<open>proxy/http_response.go\<close>. A response has a payload (a map from
  string keys to decoded values; \<open>None\<close> is Go's nil map), a completeness flag, an
  optional open byte stream and metadata (status code, with Go's zero value 0 when it
  is not set, and a header map). The stream wrapper is bound to a cancellation context
  and wraps the raw body; a read after cancellation fails with a cancellation error.
\<close>

type_synonym 'v payload = "(string \<rightharpoonup> 'v) option"

datatype io_Reader = readCloserWrapper go_context stream

definition NewReadCloserWrapper :: "go_context \<Rightarrow> stream \<Rightarrow> io_Reader" where
  "NewReadCloserWrapper ctx body = readCloserWrapper ctx body"

definition ErrCanceled :: go_error where
  "ErrCanceled = GoError ''context canceled''"

fun io_ReadAll :: "io_Reader \<Rightarrow> stream" where
  "io_ReadAll (readCloserWrapper Background body) = body"
| "io_ReadAll (readCloserWrapper Canceled body) = ([], Some ErrCanceled)"

record Metadata =
  Headers :: header
  StatusCode :: int

record 'v Response =
  Data :: "'v payload"
  IsComplete :: bool
  Metadata :: Metadata
  Io :: "io_Reader option"

text \<open>
  A decoder is called with the reader and a pointer to the (nil) payload; it may fill
  the payload and it returns an error or nil. In the model it maps what the reader
  yields to the payload it leaves behind and the error it returns.
\<close>

type_synonym 'v decoder = "stream \<Rightarrow> 'v payload \<times> go_error option"

type_synonym 'v EntityFormatter = "'v Response \<Rightarrow> 'v Response"

definition Format :: "'v EntityFormatter \<Rightarrow> 'v Response \<Rightarrow> 'v Response" where
  "Format f r = f r"

record 'v HTTPResponseParserConfig =
  Decoder :: "'v decoder"
  EntityFormatter :: "'v EntityFormatter"

record Backend =
  HeadersFromResponse :: "string list"

definition DefaultHTTPResponseParserConfig :: "'v HTTPResponseParserConfig" where
  "DefaultHTTPResponseParserConfig =
     \<lparr> Decoder = (\<lambda>_. (None, None)), EntityFormatter = (\<lambda>r. r) \<rparr>"

subsection \<open>Deferred calls and outcomes\<close>

text \<open>
  A call of the parser either panics or returns the pair
  \<^verbatim>\<open>(*Response, error)\<close>: \<open>Inl err\<close> is \<^verbatim>\<open>(nil, err)\<close> and \<open>Inr r\<close> is
  \<^verbatim>\<open>(&r, nil)\<close>. Deferred calls run last-in first-out when the function is left,
  also while it is panicking; a deferred call that panics leaves the function
  panicking and the remaining deferred calls still run.
\<close>

datatype 'a outcome = Panic | Returned 'a

datatype deferred = Defer_Body_Close | Defer_reader_Close reader

fun run_defers :: "deferred list \<Rightarrow> 'a outcome \<times> event list \<Rightarrow> 'a outcome \<times> event list" where
  "run_defers [] st = st"
| "run_defers (Defer_Body_Close # ds) (out, tr) = run_defers ds (out, tr @ [CloseBody])"
| "run_defers (Defer_reader_Close r # ds) (out, tr) =
     (case reader_Close r of
        Some e \<Rightarrow> run_defers ds (out, tr @ [e])
      | None \<Rightarrow> run_defers ds (Panic, tr))"

subsection \<open>DefaultHTTPResponseParserFactory\<close>

text \<open>
  Lines 39 to 46: the \<^verbatim>\<open>switch\<close> on \<^verbatim>\<open>resp.Header.Get("Content-Encoding")\<close>. It
  yields the reader and the stack of deferred calls (the newest first); the body's
  \<^verbatim>\<open>Close\<close> was deferred on line 37.
\<close>

definition selectReader ::
  "(stream \<Rightarrow> stream option) \<Rightarrow> http_Response \<Rightarrow> reader \<times> deferred list" where
  "selectReader inflate resp =
     (if Header_Get (resp_Header resp) ''Content-Encoding'' = ''gzip''
      then (let reader = gzip_NewReader inflate (resp_Body resp)
            in (reader, [Defer_reader_Close reader, Defer_Body_Close]))
      else (BodyReader (resp_Body resp), [Defer_Body_Close]))"

text \<open>
  Lines 53 to 59: the loop over \<^verbatim>\<open>remote.HeadersFromResponse\<close> that fills
  \<^verbatim>\<open>responseHeader\<close>, which starts as the empty map.
\<close>

fun responseHeader_loop :: "string list \<Rightarrow> header \<Rightarrow> header \<Rightarrow> header" where
  "responseHeader_loop [] h responseHeader = responseHeader"
| "responseHeader_loop (name # names) h responseHeader =
     (let headerFromResponse = CanonicalMIMEHeaderKey name
      in responseHeader_loop names h
           (if Header_Get h headerFromResponse \<noteq> []
            then Header_Set responseHeader headerFromResponse (Header_Get h headerFromResponse)
            else responseHeader))"

text \<open>
  Lines 61 to 67: the response built before the formatter is applied. \<^verbatim>\<open>Io\<close> and
  \<^verbatim>\<open>StatusCode\<close> are not mentioned in the literal and keep their zero values.
\<close>

definition newResponse :: "Backend \<Rightarrow> http_Response \<Rightarrow> 'v payload \<Rightarrow> 'v Response" where
  "newResponse remote resp data =
     \<lparr> Data = data, IsComplete = True,
       Metadata = \<lparr> Headers = responseHeader_loop (HeadersFromResponse remote)
                                 (resp_Header resp) Map.empty,
                    StatusCode = 0 \<rparr>,
       Io = None \<rparr>"

text \<open>
  Lines 48 to 51 and 68 to 69: the decoder is run on the reader; its error is returned
  with a nil response, otherwise the formatter is applied to the response built from
  the decoded payload. A decoder that reads from the nil gzip reader panics at once;
  one that returns without reading lets the function go on to its \<^verbatim>\<open>return\<close>,
  where the deferred \<^verbatim>\<open>reader.Close()\<close> panics. Either way the call panics, so the
  model has one branch for both.
\<close>

definition decodeResponse ::
  "Backend \<Rightarrow> 'v HTTPResponseParserConfig \<Rightarrow> http_Response \<Rightarrow> reader \<Rightarrow>
     (go_error + 'v Response) outcome" where
  "decodeResponse remote cfg resp reader =
     (case reader_Read reader of
        None \<Rightarrow> Panic
      | Some src \<Rightarrow>
          (case Decoder cfg src of
             (data, Some err) \<Rightarrow> Returned (Inl err)
           | (data, None) \<Rightarrow>
               Returned (Inr (Format (EntityFormatter cfg) (newResponse remote resp data)))))"

text \<open>
  The parser: the reader is selected, the rest of the body runs, and the deferred calls
  run on the way out. The context is not used on this path.
\<close>

definition DefaultHTTPResponseParserFactory ::
  "(stream \<Rightarrow> stream option) \<Rightarrow> Backend \<Rightarrow> 'v HTTPResponseParserConfig \<Rightarrow> go_context \<Rightarrow>
     http_Response \<Rightarrow> (go_error + 'v Response) outcome \<times> event list" where
  "DefaultHTTPResponseParserFactory inflate remote cfg ctx resp =
     (case selectReader inflate resp of
        (reader, defers) \<Rightarrow> run_defers defers (decodeResponse remote cfg resp reader, []))"

subsection \<open>NoOpHTTPResponseParser\<close>

definition NoOpHTTPResponseParser ::
  "go_context \<Rightarrow> http_Response \<Rightarrow> (go_error + 'v Response) outcome \<times> event list" where
  "NoOpHTTPResponseParser ctx resp =
     (Returned (Inr \<lparr> Data = Some Map.empty, IsComplete = True,
                      Metadata = \<lparr> Headers = resp_Header resp,
                                   StatusCode = resp_StatusCode resp \<rparr>,
                      Io = Some (NewReadCloserWrapper ctx (resp_Body resp)) \<rparr>), [])"

subsection \<open>Content carriers of a response\<close>

text \<open>
  The two content carriers the specification speaks of: a payload is populated when it
  is a map with at least one key, and a raw stream is attached when \<^verbatim>\<open>Io\<close> is not
  nil. The specification asks for exactly one of the two.
\<close>

definition populated :: "'v payload \<Rightarrow> bool" where
  "populated d = (case d of None \<Rightarrow> False | Some m \<Rightarrow> dom m \<noteq> {})"

definition streamAttached :: "'v Response \<Rightarrow> bool" where
  "streamAttached r = (Io r \<noteq> None)"

definition exactlyOneCarrier :: "'v Response \<Rightarrow> bool" where
  "exactlyOneCarrier r = (populated (Data r) \<noteq> streamAttached r)"

subsection \<open>Inputs for the examples\<close>

text \<open>
  The ten fixed bytes of a gzip header (deflate, no flags, no time stamp, Unix), a
  stand-in for the decompressor which takes everything after them as the payload, and
  the body \<^verbatim>\<open>{"a":1}\<close> of the passthrough scenario.
\<close>

definition gzipHeader10 :: string where
  "gzipHeader10 =
     [CHR 0x1F, CHR 0x8B, CHR 0x08, CHR 0x00, CHR 0x00, CHR 0x00, CHR 0x00, CHR 0x00,
      CHR 0x00, CHR 0x03]"

definition dropHeader :: "stream \<Rightarrow> stream option" where
  "dropHeader body = Some (drop 10 (fst body), snd body)"

definition jsonA1 :: string where
  "jsonA1 = [CHR ''{'', CHR 0x22, CHR ''a'', CHR 0x22, CHR '':'', CHR ''1'', CHR ''}'']"

section \<open>Properties\<close>

subsection \<open>Canonical header keys\<close>

lemma of_char_upper_shift:
  assumes "isLowerAZ c"
  shows "(of_char (char_of ((of_char c :: nat) - toLower)) :: nat) = of_char c - 32"
proof -
  have "(of_char c :: nat) - 32 < 256"
    using assms unfolding isLowerAZ_def by arith
  then show ?thesis
    by (simp add: toLower_def)
qed

lemma of_char_lower_shift:
  assumes "isUpperAZ c"
  shows "(of_char (char_of ((of_char c :: nat) + toLower)) :: nat) = of_char c + 32"
proof -
  have "(of_char c :: nat) + 32 < 256"
    using assms unfolding isUpperAZ_def by arith
  then show ?thesis
    by (simp add: toLower_def)
qed

lemma valid_isUpperAZ: "isUpperAZ c \<Longrightarrow> validHeaderFieldByte c"
  by (auto simp: validHeaderFieldByte_def isUpperAZ_def Let_def)

lemma valid_isLowerAZ: "isLowerAZ c \<Longrightarrow> validHeaderFieldByte c"
  by (auto simp: validHeaderFieldByte_def isLowerAZ_def Let_def)

lemma isUpperAZ_shift: "isLowerAZ c \<Longrightarrow> isUpperAZ (char_of ((of_char c :: nat) - toLower))"
  unfolding isUpperAZ_def using of_char_upper_shift [of c] by (auto simp: isLowerAZ_def)

lemma isLowerAZ_shift: "isUpperAZ c \<Longrightarrow> isLowerAZ (char_of ((of_char c :: nat) + toLower))"
  unfolding isLowerAZ_def using of_char_lower_shift [of c] by (auto simp: isUpperAZ_def)

lemma not_both_cases: "isLowerAZ c \<Longrightarrow> \<not> isUpperAZ c"
  by (auto simp: isLowerAZ_def isUpperAZ_def)

lemma canonicalByte_valid:
  "validHeaderFieldByte c \<Longrightarrow> validHeaderFieldByte (canonicalByte u c)"
  by (simp add: canonicalByte_def valid_isUpperAZ valid_isLowerAZ isUpperAZ_shift isLowerAZ_shift)

lemma canonicalByte_idem: "canonicalByte u (canonicalByte u c) = canonicalByte u c"
proof (cases "u \<and> isLowerAZ c")
  case True
  then have step: "canonicalByte u c = char_of ((of_char c :: nat) - toLower)"
    by (simp add: canonicalByte_def)
  from True have "\<not> isLowerAZ (char_of ((of_char c :: nat) - toLower))"
    using isUpperAZ_shift [of c] not_both_cases by blast
  with True have "canonicalByte u (char_of ((of_char c :: nat) - toLower)) =
      char_of ((of_char c :: nat) - toLower)"
    by (simp add: canonicalByte_def)
  with step show ?thesis
    by simp
next
  case False
  show ?thesis
  proof (cases "\<not> u \<and> isUpperAZ c")
    case True
    then have step: "canonicalByte u c = char_of ((of_char c :: nat) + toLower)"
      by (simp add: canonicalByte_def)
    from True have "\<not> isUpperAZ (char_of ((of_char c :: nat) + toLower))"
      using isLowerAZ_shift [of c] not_both_cases by blast
    with True have "canonicalByte u (char_of ((of_char c :: nat) + toLower)) =
        char_of ((of_char c :: nat) + toLower)"
      by (simp add: canonicalByte_def)
    with step show ?thesis
      by simp
  next
    case F2: False
    with False have "canonicalByte u c = c"
      by (auto simp: canonicalByte_def)
    then show ?thesis
      by simp
  qed
qed

lemma canonicalMIMEHeaderKey_valid:
  "list_all validHeaderFieldByte s \<Longrightarrow>
   list_all validHeaderFieldByte (canonicalMIMEHeaderKey u s)"
  by (induction s arbitrary: u) (auto simp: canonicalByte_valid)

lemma canonicalMIMEHeaderKey_idem:
  "canonicalMIMEHeaderKey u (canonicalMIMEHeaderKey u s) = canonicalMIMEHeaderKey u s"
  by (induction s arbitrary: u) (simp_all add: canonicalByte_idem)

lemma CanonicalMIMEHeaderKey_idem:
  "CanonicalMIMEHeaderKey (CanonicalMIMEHeaderKey s) = CanonicalMIMEHeaderKey s"
  by (simp add: CanonicalMIMEHeaderKey_def canonicalMIMEHeaderKey_valid
      canonicalMIMEHeaderKey_idem)

lemma Header_Get_Canonical: "Header_Get h (CanonicalMIMEHeaderKey k) = Header_Get h k"
  by (simp add: Header_Get_def CanonicalMIMEHeaderKey_idem)

lemma Canonical_Content_Encoding:
  "CanonicalMIMEHeaderKey ''Content-Encoding'' = ''Content-Encoding''"
  by code_simp

lemma Header_Get_Content_Encoding:
  "Header_Get h ''Content-Encoding'' =
     (case h ''Content-Encoding'' of None \<Rightarrow> [] | Some [] \<Rightarrow> [] | Some (v # vs) \<Rightarrow> v)"
  by (simp add: Header_Get_def Canonical_Content_Encoding)

subsection \<open>The header loop\<close>

lemma responseHeader_loop_lookup:
  "responseHeader_loop L h acc k =
     (if k \<in> CanonicalMIMEHeaderKey ` set L \<and> Header_Get h k \<noteq> []
      then Some [Header_Get h k] else acc k)"
proof (induction L arbitrary: acc)
  case Nil
  show ?case by simp
next
  case (Cons n ns)
  show ?case
    by (auto simp: Cons.IH Let_def Header_Set_def CanonicalMIMEHeaderKey_idem
        Header_Get_Canonical)
qed

subsection \<open>Outcome and trace of the decode path\<close>

lemma gzip_NewReader_not_BodyReader: "gzip_NewReader inflate body \<noteq> BodyReader s"
  by (simp add: gzip_NewReader_def split: option.splits)

lemma parser_outcome:
  "fst (DefaultHTTPResponseParserFactory inflate remote cfg ctx resp) =
     decodeResponse remote cfg resp (fst (selectReader inflate resp))"
proof (cases "Header_Get (resp_Header resp) ''Content-Encoding'' = ''gzip''")
  case False
  then show ?thesis
    by (simp add: DefaultHTTPResponseParserFactory_def selectReader_def)
next
  case True
  show ?thesis
  proof (cases "gzip_NewReader inflate (resp_Body resp)")
    case NilGzipReader
    with True show ?thesis
      by (simp add: DefaultHTTPResponseParserFactory_def selectReader_def decodeResponse_def Let_def)
  qed (use True in \<open>simp_all add: DefaultHTTPResponseParserFactory_def selectReader_def Let_def\<close>)
qed

lemma parser_trace:
  "snd (DefaultHTTPResponseParserFactory inflate remote cfg ctx resp) =
     (case fst (selectReader inflate resp) of
        GzipReader s \<Rightarrow> [CloseGzip, CloseBody]
      | BodyReader s \<Rightarrow> [CloseBody]
      | NilGzipReader \<Rightarrow> [CloseBody])"
proof (cases "Header_Get (resp_Header resp) ''Content-Encoding'' = ''gzip''")
  case False
  then show ?thesis
    by (simp add: DefaultHTTPResponseParserFactory_def selectReader_def)
next
  case True
  then show ?thesis
    by (cases "gzip_NewReader inflate (resp_Body resp)")
      (simp_all add: DefaultHTTPResponseParserFactory_def selectReader_def Let_def
        gzip_NewReader_not_BodyReader)
qed

lemma fst_selectReader:
  "fst (selectReader inflate resp) =
     (if Header_Get (resp_Header resp) ''Content-Encoding'' = ''gzip''
      then gzip_NewReader inflate (resp_Body resp) else BodyReader (resp_Body resp))"
  by (simp add: selectReader_def Let_def)

subsection \<open>Canonical forms used in the examples\<close>

lemma Canonical_examples:
  "CanonicalMIMEHeaderKey ''x-foo'' = ''X-Foo''"
  "CanonicalMIMEHeaderKey ''X-Foo'' = ''X-Foo''"
  "CanonicalMIMEHeaderKey ''X-FOO'' = ''X-Foo''"
  "CanonicalMIMEHeaderKey ''content-type'' = ''Content-Type''"
  "CanonicalMIMEHeaderKey ''Content-Type'' = ''Content-Type''"
  "CanonicalMIMEHeaderKey ''X-Secret'' = ''X-Secret''"
  by code_simp+

section \<open>The claims\<close>

subsection \<open>C1: the byte source depends on Content-Encoding alone\<close>

text \<open>
  C1. The decode path selects its byte source from the Content-Encoding header alone.
  When \<^verbatim>\<open>Header.Get\<close> gives exactly \<^verbatim>\<open>gzip\<close> (that is, the first value stored under
  the key is \<^verbatim>\<open>gzip\<close>), the reader is what \<^verbatim>\<open>gzip.NewReader\<close> makes of the raw body
  and the rest of the parser runs on it; for every other value, and when the header is
  absent, the reader is the raw body itself.
\<close>

theorem content_encoding_selects_reader:
  "(Header_Get (resp_Header resp) ''Content-Encoding'' = ''gzip'' \<longrightarrow>
      fst (selectReader inflate resp) = gzip_NewReader inflate (resp_Body resp) \<and>
      fst (DefaultHTTPResponseParserFactory inflate remote cfg ctx resp) =
        decodeResponse remote cfg resp (gzip_NewReader inflate (resp_Body resp)))
   \<and> (Header_Get (resp_Header resp) ''Content-Encoding'' \<noteq> ''gzip'' \<longrightarrow>
      fst (selectReader inflate resp) = BodyReader (resp_Body resp) \<and>
      fst (DefaultHTTPResponseParserFactory inflate remote cfg ctx resp) =
        decodeResponse remote cfg resp (BodyReader (resp_Body resp)))
   \<and> (Header_Get (resp_Header resp) ''Content-Encoding'' = ''gzip'' \<longleftrightarrow>
        (\<exists>vs. resp_Header resp ''Content-Encoding'' = Some (''gzip'' # vs)))"
proof -
  have raw: "Header_Get (resp_Header resp) ''Content-Encoding'' = ''gzip'' \<longleftrightarrow>
        (\<exists>vs. resp_Header resp ''Content-Encoding'' = Some (''gzip'' # vs))"
    unfolding Header_Get_Content_Encoding
    by (auto split: option.splits list.splits)
  show ?thesis
    using raw fst_selectReader [of inflate resp] parser_outcome [of inflate remote cfg ctx resp]
    by simp
qed

theorem content_encoding_selects_reader_witness:
  "fst (selectReader dropHeader
          \<lparr> resp_StatusCode = 200, resp_Header = [''Content-Encoding'' \<mapsto> [''deflate'']],
            resp_Body = (''abc'', None) \<rparr>) = BodyReader (''abc'', None)
   \<and> fst (selectReader dropHeader
          \<lparr> resp_StatusCode = 200, resp_Header = Map.empty,
            resp_Body = (gzipHeader10 @ ''abc'', None) \<rparr>) =
         BodyReader (gzipHeader10 @ ''abc'', None)
   \<and> fst (selectReader dropHeader
          \<lparr> resp_StatusCode = 200, resp_Header = [''Content-Encoding'' \<mapsto> [''gzip'']],
            resp_Body = (gzipHeader10 @ ''abc'', None) \<rparr>) = GzipReader (''abc'', None)"
  using content_encoding_selects_reader [of
      "\<lparr> resp_StatusCode = 200, resp_Header = [''Content-Encoding'' \<mapsto> [''deflate'']],
         resp_Body = (''abc'', None) \<rparr>" dropHeader
      "\<lparr> HeadersFromResponse = [] \<rparr>"
      "DefaultHTTPResponseParserConfig :: int HTTPResponseParserConfig" Background]
    content_encoding_selects_reader [of
      "\<lparr> resp_StatusCode = 200, resp_Header = Map.empty,
         resp_Body = (gzipHeader10 @ ''abc'', None) \<rparr>" dropHeader
      "\<lparr> HeadersFromResponse = [] \<rparr>"
      "DefaultHTTPResponseParserConfig :: int HTTPResponseParserConfig" Background]
    content_encoding_selects_reader [of
      "\<lparr> resp_StatusCode = 200, resp_Header = [''Content-Encoding'' \<mapsto> [''gzip'']],
         resp_Body = (gzipHeader10 @ ''abc'', None) \<rparr>" dropHeader
      "\<lparr> HeadersFromResponse = [] \<rparr>"
      "DefaultHTTPResponseParserConfig :: int HTTPResponseParserConfig" Background]
  by (simp add: Header_Get_Content_Encoding gzip_NewReader_def gzipHeaderOK_def
      gzipHeader10_def dropHeader_def)

subsection \<open>C2: the projected header set\<close>

text \<open>
  C2. For every allow-list and every raw header map, the header map of the response
  that the decode path builds holds exactly the canonical forms of the allow-listed
  names under which \<^verbatim>\<open>Header.Get\<close> finds a non-empty value in the raw header, each
  mapped to that one value, and nothing else. It depends on the allow-list only as a
  set, so the order of the names (and repetitions) do not matter. The formatter is
  applied to this response; a formatter that leaves the header map alone, such as the
  identity of the default configuration, hands it on unchanged.
\<close>

theorem header_projection_exact:
  assumes "fst (DefaultHTTPResponseParserFactory inflate remote cfg ctx resp) = Returned (Inr out)"
  shows "(\<exists>data. out = Format (EntityFormatter cfg) (newResponse remote resp data)
            \<and> (\<forall>k. Headers (Metadata (newResponse remote resp data)) k =
                  (if k \<in> CanonicalMIMEHeaderKey ` set (HeadersFromResponse remote)
                      \<and> Header_Get (resp_Header resp) k \<noteq> []
                   then Some [Header_Get (resp_Header resp) k] else None)))
         \<and> ((\<forall>r. Headers (Metadata (EntityFormatter cfg r)) = Headers (Metadata r)) \<longrightarrow>
              (\<forall>k. Headers (Metadata out) k =
                  (if k \<in> CanonicalMIMEHeaderKey ` set (HeadersFromResponse remote)
                      \<and> Header_Get (resp_Header resp) k \<noteq> []
                   then Some [Header_Get (resp_Header resp) k] else None)))
         \<and> (\<forall>names. set names = set (HeadersFromResponse remote) \<longrightarrow>
              responseHeader_loop names (resp_Header resp) Map.empty =
              responseHeader_loop (HeadersFromResponse remote) (resp_Header resp) Map.empty)"
proof -
  have hdr: "Headers (Metadata (newResponse rm resp d)) k =
                  (if k \<in> CanonicalMIMEHeaderKey ` set (HeadersFromResponse rm)
                      \<and> Header_Get (resp_Header resp) k \<noteq> []
                   then Some [Header_Get (resp_Header resp) k] else None)" for rm :: Backend and k and d :: "'a payload"
    by (simp add: newResponse_def responseHeader_loop_lookup)
  from assms obtain data where out: "out = Format (EntityFormatter cfg) (newResponse remote resp data)"
    by (auto simp: parser_outcome decodeResponse_def split: option.splits prod.splits)
  have first: "\<exists>data. out = Format (EntityFormatter cfg) (newResponse remote resp data)
            \<and> (\<forall>k. Headers (Metadata (newResponse remote resp data)) k =
                  (if k \<in> CanonicalMIMEHeaderKey ` set (HeadersFromResponse remote)
                      \<and> Header_Get (resp_Header resp) k \<noteq> []
                   then Some [Header_Get (resp_Header resp) k] else None))"
    using out hdr by blast
  have second: "(\<forall>r. Headers (Metadata (EntityFormatter cfg r)) = Headers (Metadata r)) \<longrightarrow>
              (\<forall>k. Headers (Metadata out) k =
                  (if k \<in> CanonicalMIMEHeaderKey ` set (HeadersFromResponse remote)
                      \<and> Header_Get (resp_Header resp) k \<noteq> []
                   then Some [Header_Get (resp_Header resp) k] else None))"
    using out hdr by (simp add: Format_def)
  have third: "\<forall>names. set names = set (HeadersFromResponse remote) \<longrightarrow>
              responseHeader_loop names (resp_Header resp) Map.empty =
              responseHeader_loop (HeadersFromResponse remote) (resp_Header resp) Map.empty"
  proof (intro allI impI)
    fix names
    assume "set names = set (HeadersFromResponse remote)"
    then show "responseHeader_loop names (resp_Header resp) Map.empty =
              responseHeader_loop (HeadersFromResponse remote) (resp_Header resp) Map.empty"
      by (intro ext) (simp add: responseHeader_loop_lookup)
  qed
  show ?thesis
    using first second third by blast
qed

theorem header_projection_exact_witness:
  "fst (DefaultHTTPResponseParserFactory dropHeader
          \<lparr> HeadersFromResponse = [''content-type'', ''X-FOO'', ''x-foo''] \<rparr>
          DefaultHTTPResponseParserConfig Background
          \<lparr> resp_StatusCode = 200,
            resp_Header = [''X-Foo'' \<mapsto> [''bar''], ''X-Secret'' \<mapsto> [''s''],
                           ''Content-Type'' \<mapsto> [[]]],
            resp_Body = (jsonA1, None) \<rparr>) =
     Returned (Inr (newResponse \<lparr> HeadersFromResponse = [''content-type'', ''X-FOO'', ''x-foo''] \<rparr>
          \<lparr> resp_StatusCode = 200,
            resp_Header = [''X-Foo'' \<mapsto> [''bar''], ''X-Secret'' \<mapsto> [''s''],
                           ''Content-Type'' \<mapsto> [[]]],
            resp_Body = (jsonA1, None) \<rparr> (None :: int payload)))
   \<and> Headers (Metadata (newResponse \<lparr> HeadersFromResponse = [''content-type'', ''X-FOO'', ''x-foo''] \<rparr>
          \<lparr> resp_StatusCode = 200,
            resp_Header = [''X-Foo'' \<mapsto> [''bar''], ''X-Secret'' \<mapsto> [''s''],
                           ''Content-Type'' \<mapsto> [[]]],
            resp_Body = (jsonA1, None) \<rparr> (None :: int payload))) =
       [''X-Foo'' \<mapsto> [''bar'']]"
proof -
  let ?remote = "\<lparr> HeadersFromResponse = [''content-type'', ''X-FOO'', ''x-foo''] \<rparr>"
  let ?h = "[''X-Foo'' \<mapsto> [''bar''], ''X-Secret'' \<mapsto> [''s''], ''Content-Type'' \<mapsto> [[]]]"
  let ?resp = "\<lparr> resp_StatusCode = 200, resp_Header = ?h, resp_Body = (jsonA1, None) \<rparr>"
  let ?out = "newResponse ?remote ?resp (None :: int payload)"
  have run: "fst (DefaultHTTPResponseParserFactory dropHeader ?remote
      DefaultHTTPResponseParserConfig Background ?resp) = Returned (Inr ?out)"
    by (simp add: parser_outcome fst_selectReader Header_Get_Content_Encoding decodeResponse_def
        DefaultHTTPResponseParserConfig_def Format_def)
  have keep: "\<forall>r. Headers (Metadata (EntityFormatter
      (DefaultHTTPResponseParserConfig :: int HTTPResponseParserConfig) r)) = Headers (Metadata r)"
    by (simp add: DefaultHTTPResponseParserConfig_def)
  have look: "Headers (Metadata ?out) k =
      (if k \<in> CanonicalMIMEHeaderKey ` set (HeadersFromResponse ?remote)
          \<and> Header_Get (resp_Header ?resp) k \<noteq> []
       then Some [Header_Get (resp_Header ?resp) k] else None)" for k
    using header_projection_exact [OF run] keep by blast
  have "Headers (Metadata ?out) k = [''X-Foo'' \<mapsto> [''bar'']] k" for k
    unfolding look by (auto simp: Canonical_examples Header_Get_def)
  then have "Headers (Metadata ?out) = [''X-Foo'' \<mapsto> [''bar'']]"
    by (intro ext)
  with run show ?thesis
    by simp
qed

subsection \<open>C3: a decoder error is returned as it is, with no response\<close>

text \<open>
  C3. When the decoder returns an error on the byte source, the decode path returns
  that very error together with a nil response: whatever the decoder had already
  written into the payload is dropped, and no response value is built.
\<close>

theorem decoder_error_returned_verbatim:
  assumes "reader_Read (fst (selectReader inflate resp)) = Some src"
    and "Decoder cfg src = (partial, Some err)"
  shows "fst (DefaultHTTPResponseParserFactory inflate remote cfg ctx resp) = Returned (Inl err)"
  using assms by (simp add: parser_outcome decodeResponse_def)

theorem decoder_error_returned_verbatim_witness:
  "fst (DefaultHTTPResponseParserFactory dropHeader \<lparr> HeadersFromResponse = [''X-Foo''] \<rparr>
          \<lparr> Decoder = (\<lambda>src. (Some [''a'' \<mapsto> (1::int)], Some (GoError ''unexpected EOF''))),
            EntityFormatter = (\<lambda>r. r) \<rparr>
          Background
          \<lparr> resp_StatusCode = 200, resp_Header = [''X-Foo'' \<mapsto> [''bar'']],
            resp_Body = (jsonA1, None) \<rparr>) =
     Returned (Inl (GoError ''unexpected EOF''))"
proof -
  let ?resp = "\<lparr> resp_StatusCode = 200, resp_Header = [''X-Foo'' \<mapsto> [''bar'']],
            resp_Body = (jsonA1, None) \<rparr>"
  have src: "reader_Read (fst (selectReader dropHeader ?resp)) = Some (jsonA1, None)"
    by (simp add: fst_selectReader Header_Get_Content_Encoding)
  show ?thesis
    by (rule decoder_error_returned_verbatim [OF src]) simp
qed

subsection \<open>C4: a body that is not gzip under Content-Encoding: gzip\<close>

text \<open>
  C4. The specification asks that a response which announces gzip but whose body is
  not a gzip stream does not crash the decode path and surfaces as a decode error. The
  code discards the error of \<^verbatim>\<open>gzip.NewReader\<close> and keeps the nil reader it returned:
  with the body \<^verbatim>\<open>not gzip\<close> the call panics, for every decoder, formatter and
  allow-list, after the body has been closed. No error is returned to the caller.
\<close>

theorem invalid_gzip_body_panics:
  "DefaultHTTPResponseParserFactory inflate remote cfg ctx
      \<lparr> resp_StatusCode = 200, resp_Header = [''Content-Encoding'' \<mapsto> [''gzip'']],
        resp_Body = (''not gzip'', None) \<rparr> = (Panic, [CloseBody])"
proof -
  let ?resp = "\<lparr> resp_StatusCode = 200, resp_Header = [''Content-Encoding'' \<mapsto> [''gzip'']],
        resp_Body = (''not gzip'', None) \<rparr>"
  have sel: "fst (selectReader inflate ?resp) = NilGzipReader"
    by (simp add: fst_selectReader Header_Get_Content_Encoding gzip_NewReader_def gzipHeaderOK_def)
  have "fst (DefaultHTTPResponseParserFactory inflate remote cfg ctx ?resp) = Panic"
    by (simp add: parser_outcome sel decodeResponse_def)
  moreover have "snd (DefaultHTTPResponseParserFactory inflate remote cfg ctx ?resp) = [CloseBody]"
    by (simp add: parser_trace sel)
  ultimately show ?thesis
    by (simp add: prod_eq_iff)
qed

subsection \<open>C5: the response built on success\<close>

text \<open>
  C5. When the decoder succeeds, the response that the decode path builds before it
  applies the formatter has the completeness flag set, carries the decoded payload and
  the projected headers, and has no status code (Go's zero value) and no stream; the
  formatter is applied to exactly this response.
\<close>

theorem success_builds_complete_response:
  assumes "reader_Read (fst (selectReader inflate resp)) = Some src"
    and "Decoder cfg src = (data, None)"
  shows "fst (DefaultHTTPResponseParserFactory inflate remote cfg ctx resp) =
           Returned (Inr (Format (EntityFormatter cfg) (newResponse remote resp data)))
         \<and> IsComplete (newResponse remote resp data)
         \<and> Data (newResponse remote resp data) = data
         \<and> Headers (Metadata (newResponse remote resp data)) =
             responseHeader_loop (HeadersFromResponse remote) (resp_Header resp) Map.empty
         \<and> StatusCode (Metadata (newResponse remote resp data)) = 0
         \<and> Io (newResponse remote resp data) = None"
  using assms by (simp add: parser_outcome decodeResponse_def newResponse_def)

theorem success_builds_complete_response_witness:
  "fst (DefaultHTTPResponseParserFactory dropHeader \<lparr> HeadersFromResponse = [] \<rparr>
          \<lparr> Decoder = (\<lambda>src. (Some [''a'' \<mapsto> (1::int)], None)),
            EntityFormatter = (\<lambda>r. r) \<rparr>
          Background
          \<lparr> resp_StatusCode = 200, resp_Header = [''X-Foo'' \<mapsto> [''bar'']],
            resp_Body = (jsonA1, None) \<rparr>) =
     Returned (Inr \<lparr> Data = Some [''a'' \<mapsto> 1], IsComplete = True,
                      Metadata = \<lparr> Headers = Map.empty, StatusCode = 0 \<rparr>, Io = None \<rparr>)"
proof -
  let ?resp = "\<lparr> resp_StatusCode = 200, resp_Header = [''X-Foo'' \<mapsto> [''bar'']],
            resp_Body = (jsonA1, None) \<rparr>"
  let ?cfg = "\<lparr> Decoder = (\<lambda>src. (Some [''a'' \<mapsto> (1::int)], None)),
            EntityFormatter = (\<lambda>r. r) \<rparr>"
  have src: "reader_Read (fst (selectReader dropHeader ?resp)) = Some (jsonA1, None)"
    by (simp add: fst_selectReader Header_Get_Content_Encoding)
  have dec: "Decoder ?cfg (jsonA1, None) = (Some [''a'' \<mapsto> (1::int)], None)"
    by simp
  show ?thesis
    using success_builds_complete_response [OF src dec, of "\<lparr> HeadersFromResponse = [] \<rparr>"
        Background]
    by (simp add: Format_def newResponse_def)
qed

subsection \<open>C6: the passthrough parser\<close>

text \<open>
  C6. For every context and raw response the passthrough parser returns a response and
  no error: the payload is the empty map, the completeness flag is set, the status code
  and the whole header map are those of the raw response, and the stream is the wrapper
  around the raw body, bound to the context. The parser does not close the body.
  Reading the wrapper to its end under a context that has not been cancelled yields
  what the raw body yields.
\<close>

theorem noop_passthrough:
  "\<exists>r. NoOpHTTPResponseParser ctx resp = (Returned (Inr r), [])
       \<and> Data r = Some Map.empty \<and> IsComplete r
       \<and> StatusCode (Metadata r) = resp_StatusCode resp
       \<and> Headers (Metadata r) = resp_Header resp
       \<and> Io r = Some (NewReadCloserWrapper ctx (resp_Body resp))
       \<and> (ctx = Background \<longrightarrow>
            io_ReadAll (NewReadCloserWrapper ctx (resp_Body resp)) = resp_Body resp)"
  by (auto simp: NoOpHTTPResponseParser_def NewReadCloserWrapper_def)

theorem noop_passthrough_witness:
  "NoOpHTTPResponseParser Background
      \<lparr> resp_StatusCode = 200, resp_Header = [''X-Foo'' \<mapsto> [''bar'']],
        resp_Body = (jsonA1, None) \<rparr> =
     (Returned (Inr \<lparr> Data = (Some Map.empty :: int payload), IsComplete = True,
                      Metadata = \<lparr> Headers = [''X-Foo'' \<mapsto> [''bar'']], StatusCode = 200 \<rparr>,
                      Io = Some (NewReadCloserWrapper Background (jsonA1, None)) \<rparr>), [])
   \<and> io_ReadAll (NewReadCloserWrapper Background (jsonA1, None)) = (jsonA1, None)"
proof -
  let ?resp = "\<lparr> resp_StatusCode = 200, resp_Header = [''X-Foo'' \<mapsto> [''bar'']],
        resp_Body = (jsonA1, None) \<rparr>"
  obtain r :: "int Response" where
    r: "NoOpHTTPResponseParser Background ?resp = (Returned (Inr r), [])"
      "Data r = Some Map.empty" "IsComplete r"
      "StatusCode (Metadata r) = resp_StatusCode ?resp"
      "Headers (Metadata r) = resp_Header ?resp"
      "Io r = Some (NewReadCloserWrapper Background (resp_Body ?resp))"
      "io_ReadAll (NewReadCloserWrapper Background (resp_Body ?resp)) = resp_Body ?resp"
    using noop_passthrough [of Background ?resp] by blast
  have "r = \<lparr> Data = Some Map.empty, IsComplete = True,
              Metadata = \<lparr> Headers = [''X-Foo'' \<mapsto> [''bar'']], StatusCode = 200 \<rparr>,
              Io = Some (NewReadCloserWrapper Background (jsonA1, None)) \<rparr>"
    using r(2-6) by (cases r, cases "Metadata r") simp
  with r(1) r(7) show ?thesis
    by simp
qed

subsection \<open>C7: content carriers\<close>

text \<open>
  C7 as stated: every response produced by either parser has exactly one active
  content carrier. It fails on the decode path: with the default configuration the
  decoder leaves the payload nil, and the response has neither a populated payload nor
  a stream.
\<close>

theorem exactly_one_carrier_counterexample:
  "fst (DefaultHTTPResponseParserFactory dropHeader \<lparr> HeadersFromResponse = [] \<rparr>
          (DefaultHTTPResponseParserConfig :: int HTTPResponseParserConfig) Background
          \<lparr> resp_StatusCode = 200, resp_Header = Map.empty, resp_Body = (jsonA1, None) \<rparr>) =
     Returned (Inr \<lparr> Data = None, IsComplete = True,
                      Metadata = \<lparr> Headers = Map.empty, StatusCode = 0 \<rparr>, Io = None \<rparr>)
   \<and> \<not> exactlyOneCarrier
         \<lparr> Data = (None :: int payload), IsComplete = True,
           Metadata = \<lparr> Headers = Map.empty, StatusCode = 0 \<rparr>, Io = None \<rparr>"
  by (simp add: parser_outcome fst_selectReader Header_Get_Content_Encoding decodeResponse_def
      DefaultHTTPResponseParserConfig_def Format_def newResponse_def exactlyOneCarrier_def
      populated_def streamAttached_def)

text \<open>
  C7 as amended: a passthrough response always has the raw stream attached and an empty
  payload, so it has exactly one carrier. The response that the decode path builds,
  before formatting, never has a stream attached and carries the payload as the decoder
  left it; it has exactly one carrier if and only if that payload has at least one key.
  So the two carriers are never both present.
\<close>

theorem carriers_never_both:
  "(fst (DefaultHTTPResponseParserFactory inflate remote cfg ctx resp) = Returned (Inr out) \<longrightarrow>
      (\<exists>data. out = Format (EntityFormatter cfg) (newResponse remote resp data)
         \<and> Data (newResponse remote resp data) = data
         \<and> \<not> streamAttached (newResponse remote resp data)
         \<and> (exactlyOneCarrier (newResponse remote resp data) \<longleftrightarrow> populated data)))
   \<and> (\<exists>r :: 'a Response. fst (NoOpHTTPResponseParser ctx' resp') = Returned (Inr r)
         \<and> streamAttached r \<and> \<not> populated (Data r) \<and> exactlyOneCarrier r)"
proof -
  have decode: "\<exists>data. out = Format (EntityFormatter cfg) (newResponse remote resp data)
         \<and> Data (newResponse remote resp data) = data
         \<and> \<not> streamAttached (newResponse remote resp data)
         \<and> (exactlyOneCarrier (newResponse remote resp data) \<longleftrightarrow> populated data)"
    if run: "fst (DefaultHTTPResponseParserFactory inflate remote cfg ctx resp) = Returned (Inr out)"
  proof -
    from run obtain data where "out = Format (EntityFormatter cfg) (newResponse remote resp data)"
      by (auto simp: parser_outcome decodeResponse_def split: option.splits prod.splits)
    moreover have "Data (newResponse remote resp data) = data"
      and "\<not> streamAttached (newResponse remote resp data)"
      and "exactlyOneCarrier (newResponse remote resp data) \<longleftrightarrow> populated data"
      by (simp_all add: newResponse_def streamAttached_def exactlyOneCarrier_def)
    ultimately show ?thesis
      by blast
  qed
  have noop: "\<exists>r :: 'a Response. fst (NoOpHTTPResponseParser ctx' resp') = Returned (Inr r)
         \<and> streamAttached r \<and> \<not> populated (Data r) \<and> exactlyOneCarrier r"
    by (simp add: NoOpHTTPResponseParser_def streamAttached_def populated_def
        exactlyOneCarrier_def)
  show ?thesis
    using decode noop by blast
qed

theorem carriers_never_both_witness:
  "fst (DefaultHTTPResponseParserFactory dropHeader \<lparr> HeadersFromResponse = [] \<rparr>
          \<lparr> Decoder = (\<lambda>src. (Some [''a'' \<mapsto> (1::int)], None)),
            EntityFormatter = (\<lambda>r. r) \<rparr>
          Background
          \<lparr> resp_StatusCode = 200, resp_Header = Map.empty, resp_Body = (jsonA1, None) \<rparr>) =
     Returned (Inr \<lparr> Data = Some [''a'' \<mapsto> 1], IsComplete = True,
                      Metadata = \<lparr> Headers = Map.empty, StatusCode = 0 \<rparr>, Io = None \<rparr>)
   \<and> exactlyOneCarrier
        \<lparr> Data = Some [''a'' \<mapsto> (1::int)], IsComplete = True,
          Metadata = \<lparr> Headers = Map.empty, StatusCode = 0 \<rparr>, Io = None \<rparr>"
proof -
  let ?remote = "\<lparr> HeadersFromResponse = [] \<rparr>"
  let ?cfg = "\<lparr> Decoder = (\<lambda>src. (Some [''a'' \<mapsto> (1::int)], None)),
            EntityFormatter = (\<lambda>r. r) \<rparr>"
  let ?resp = "\<lparr> resp_StatusCode = 200, resp_Header = Map.empty, resp_Body = (jsonA1, None) \<rparr>"
  let ?out = "\<lparr> Data = Some [''a'' \<mapsto> (1::int)], IsComplete = True,
          Metadata = \<lparr> Headers = Map.empty, StatusCode = 0 \<rparr>, Io = None \<rparr>"
  have run: "fst (DefaultHTTPResponseParserFactory dropHeader ?remote ?cfg Background ?resp) =
      Returned (Inr ?out)"
    by (simp add: parser_outcome fst_selectReader Header_Get_Content_Encoding decodeResponse_def
        Format_def newResponse_def)
  from carriers_never_both [of dropHeader ?remote ?cfg Background ?resp ?out Background ?resp] run
  obtain data where d: "?out = Format (EntityFormatter ?cfg) (newResponse ?remote ?resp data)"
    "Data (newResponse ?remote ?resp data) = data"
    "exactlyOneCarrier (newResponse ?remote ?resp data) \<longleftrightarrow> populated data"
    by blast
  have "newResponse ?remote ?resp data = ?out"
    using d(1) by (simp add: Format_def)
  with d(2) d(3) have "exactlyOneCarrier ?out"
    by (auto simp: populated_def)
  with run show ?thesis
    by simp
qed

subsection \<open>C8: release of the body and of the gzip reader\<close>

text \<open>
  C8. Whatever the outcome of the decode path (a response, a decoder error, or a
  panic), the raw body is closed exactly once and last before the call is left; when a
  gzip reader was allocated, it is closed too, just before the body.
\<close>

theorem body_and_gzip_released:
  "last (snd (DefaultHTTPResponseParserFactory inflate remote cfg ctx resp)) = CloseBody
   \<and> count_list (snd (DefaultHTTPResponseParserFactory inflate remote cfg ctx resp)) CloseBody = 1
   \<and> (fst (selectReader inflate resp) = GzipReader s \<longrightarrow>
        snd (DefaultHTTPResponseParserFactory inflate remote cfg ctx resp) =
          [CloseGzip, CloseBody])
   \<and> (CloseGzip \<in> set (snd (DefaultHTTPResponseParserFactory inflate remote cfg ctx resp)) \<longleftrightarrow>
        (\<exists>z. fst (selectReader inflate resp) = GzipReader z))"
  unfolding parser_trace by (cases "fst (selectReader inflate resp)") simp_all

theorem body_and_gzip_released_witness:
  "DefaultHTTPResponseParserFactory dropHeader \<lparr> HeadersFromResponse = [] \<rparr>
      \<lparr> Decoder = (\<lambda>src. (None :: int payload, Some (GoError ''invalid character''))),
        EntityFormatter = (\<lambda>r. r) \<rparr>
      Background
      \<lparr> resp_StatusCode = 200, resp_Header = [''Content-Encoding'' \<mapsto> [''gzip'']],
        resp_Body = (gzipHeader10 @ ''abc'', None) \<rparr> =
     (Returned (Inl (GoError ''invalid character'')), [CloseGzip, CloseBody])"
proof -
  let ?resp = "\<lparr> resp_StatusCode = 200, resp_Header = [''Content-Encoding'' \<mapsto> [''gzip'']],
        resp_Body = (gzipHeader10 @ ''abc'', None) \<rparr>"
  let ?cfg = "\<lparr> Decoder = (\<lambda>src. (None :: int payload, Some (GoError ''invalid character''))),
        EntityFormatter = (\<lambda>r. r) \<rparr>"
  have sel: "fst (selectReader dropHeader ?resp) = GzipReader (''abc'', None)"
    by (simp add: fst_selectReader Header_Get_Content_Encoding gzip_NewReader_def
        gzipHeaderOK_def gzipHeader10_def dropHeader_def)
  have tr: "snd (DefaultHTTPResponseParserFactory dropHeader \<lparr> HeadersFromResponse = [] \<rparr>
      ?cfg Background ?resp) = [CloseGzip, CloseBody]"
    using body_and_gzip_released [of dropHeader "\<lparr> HeadersFromResponse = [] \<rparr>" ?cfg
        Background ?resp "(''abc'', None)"] sel by simp
  have out: "fst (DefaultHTTPResponseParserFactory dropHeader \<lparr> HeadersFromResponse = [] \<rparr>
      ?cfg Background ?resp) = Returned (Inl (GoError ''invalid character''))"
    by (simp add: parser_outcome sel decodeResponse_def)
  show ?thesis
    using tr out by (simp add: prod_eq_iff)
qed

subsection \<open>C9: the identity formatter\<close>

text \<open>
  C9. The formatter of the default configuration is the identity: applying it twice
  gives what applying it once gives, and with it the decode path returns the response
  it built before formatting.
\<close>

theorem identity_formatter_idempotent:
  "Format (EntityFormatter DefaultHTTPResponseParserConfig)
      (Format (EntityFormatter DefaultHTTPResponseParserConfig) r) =
     Format (EntityFormatter DefaultHTTPResponseParserConfig) r
   \<and> (reader_Read (fst (selectReader inflate resp)) = Some src \<and> Decoder cfg src = (data, None)
        \<and> EntityFormatter cfg = EntityFormatter DefaultHTTPResponseParserConfig \<longrightarrow>
      fst (DefaultHTTPResponseParserFactory inflate remote cfg ctx resp) =
        Returned (Inr (newResponse remote resp data)))"
  by (simp add: Format_def DefaultHTTPResponseParserConfig_def parser_outcome decodeResponse_def)

theorem identity_formatter_idempotent_witness:
  "fst (DefaultHTTPResponseParserFactory dropHeader \<lparr> HeadersFromResponse = [] \<rparr>
          DefaultHTTPResponseParserConfig Background
          \<lparr> resp_StatusCode = 200, resp_Header = Map.empty, resp_Body = (jsonA1, None) \<rparr>) =
     Returned (Inr (newResponse \<lparr> HeadersFromResponse = [] \<rparr>
          \<lparr> resp_StatusCode = 200, resp_Header = Map.empty, resp_Body = (jsonA1, None) \<rparr>
          (None :: int payload)))"
  using identity_formatter_idempotent [of
      "newResponse \<lparr> HeadersFromResponse = [] \<rparr>
          \<lparr> resp_StatusCode = 200, resp_Header = Map.empty, resp_Body = (jsonA1, None) \<rparr>
          (None :: int payload)" dropHeader
      "\<lparr> resp_StatusCode = 200, resp_Header = Map.empty, resp_Body = (jsonA1, None) \<rparr>"
      "(jsonA1, None)" "DefaultHTTPResponseParserConfig :: int HTTPResponseParserConfig" None
      "\<lparr> HeadersFromResponse = [] \<rparr>" Background]
  by (simp add: fst_selectReader Header_Get_Content_Encoding DefaultHTTPResponseParserConfig_def)

subsection \<open>C10: only the first value of a header is propagated\<close>

text \<open>
  C10. When the raw response carries several values under the canonical form of an
  allow-listed name, the projection keeps the first one only, as a single value, and
  drops the others. (When that first value is the empty string, \<^verbatim>\<open>Header.Get\<close> takes
  the header for absent and nothing is propagated.)
\<close>

theorem only_first_header_value_propagated:
  assumes "name \<in> set (HeadersFromResponse remote)"
    and "resp_Header resp (CanonicalMIMEHeaderKey name) = Some (v # vs)"
  shows "Headers (Metadata (newResponse remote resp data)) (CanonicalMIMEHeaderKey name) =
           (if v = [] then None else Some [v])"
  using assms
  by (simp add: newResponse_def responseHeader_loop_lookup Header_Get_def
      CanonicalMIMEHeaderKey_idem)

theorem only_first_header_value_propagated_witness:
  "Headers (Metadata (newResponse \<lparr> HeadersFromResponse = [''x-foo''] \<rparr>
      \<lparr> resp_StatusCode = 200, resp_Header = [''X-Foo'' \<mapsto> [''bar'', ''baz'', ''qux'']],
        resp_Body = (jsonA1, None) \<rparr> (None :: int payload))) ''X-Foo'' = Some [''bar'']"
  using only_first_header_value_propagated [of "''x-foo''"
      "\<lparr> HeadersFromResponse = [''x-foo''] \<rparr>"
      "\<lparr> resp_StatusCode = 200, resp_Header = [''X-Foo'' \<mapsto> [''bar'', ''baz'', ''qux'']],
        resp_Body = (jsonA1, None) \<rparr>" "''bar''" "[''baz'', ''qux'']" "None :: int payload"]
  by (simp add: Canonical_examples)

end
